theory Spec2Isabelle
  imports Complex_Main "HOL-Library.Sublist"
begin

section \<open>Go strings\<close>

text \<open>
  A Go string is a sequence of bytes; it is modelled as \<open>string\<close> (a list of 8-bit
  characters). The functions of package \<open>strings\<close> that the code calls are written out
  for the arguments the code passes.
\<close>

text \<open>\<open>strings.Split(s, sep)\<close> for a one-byte separator: the result is never empty.\<close>

fun Split :: "char \<Rightarrow> string \<Rightarrow> string list" where
  "Split c [] = [[]]"
| "Split c (x # xs) =
     (let r = Split c xs in if x = c then [] # r else (x # hd r) # tl r)"

text \<open>\<open>strings.LastIndex(s, sep)\<close> for a one-byte separator; \<open>-1\<close> when absent.\<close>

definition LastIndex :: "char \<Rightarrow> string \<Rightarrow> int" where
  "LastIndex c s =
     (if c \<in> set s
      then int (length s) - 1 - int (length (takeWhile (\<lambda>x. x \<noteq> c) (rev s)))
      else - 1)"

text \<open>\<open>strings.Index(s, sep)\<close>: the position of the first occurrence.\<close>

fun Index :: "string \<Rightarrow> string \<Rightarrow> nat option" where
  "Index sep [] = (if sep = [] then Some 0 else None)"
| "Index sep (x # xs) =
     (if prefix sep (x # xs) then Some 0 else map_option Suc (Index sep xs))"

text \<open>\<open>strings.Cut(s, sep)\<close> returns \<open>(before, after, found)\<close>.\<close>

definition Cut :: "string \<Rightarrow> string \<Rightarrow> string \<times> string \<times> bool" where
  "Cut s sep =
     (case Index sep s of
        Some i \<Rightarrow> (take i s, drop (i + length sep) s, True)
      | None \<Rightarrow> (s, [], False))"

definition HasPrefix :: "string \<Rightarrow> string \<Rightarrow> bool" where
  "HasPrefix s p = prefix p s"

definition TrimPrefix :: "string \<Rightarrow> string \<Rightarrow> string" where
  "TrimPrefix s p = (if prefix p s then drop (length p) s else s)"


subsection \<open>Trimming white space\<close>

text \<open>
  \<open>utf8.DecodeRuneInString\<close>: the first rune of a string and its width in bytes. A
  byte sequence that is not valid UTF-8 decodes as \<open>RuneError\<close> of width 1; the empty
  string as \<open>RuneError\<close> of width 0.
\<close>

definition RuneError :: nat where
  "RuneError = 0xFFFD"

definition is_cont :: "nat \<Rightarrow> nat \<Rightarrow> nat \<Rightarrow> bool" where
  "is_cont lo hi b \<longleftrightarrow> lo \<le> b \<and> b \<le> hi"

fun DecodeRune :: "string \<Rightarrow> nat \<times> nat" where
  "DecodeRune [] = (RuneError, 0)"
| "DecodeRune (c # cs) =
     (let s0 = of_char c :: nat;
          bs = map of_char cs :: nat list;
          n = Suc (length cs);
          (sz, lo, hi) =
            (if s0 < 0x80 then (1, 0, 0)
             else if s0 < 0xC2 then (0, 0, 0)
             else if s0 < 0xE0 then (2, 0x80, 0xBF)
             else if s0 = 0xE0 then (3, 0xA0, 0xBF)
             else if s0 = 0xED then (3, 0x80, 0x9F)
             else if s0 < 0xF0 then (3, 0x80, 0xBF)
             else if s0 = 0xF0 then (4, 0x90, 0xBF)
             else if s0 < 0xF4 then (4, 0x80, 0xBF)
             else if s0 = 0xF4 then (4, 0x80, 0x8F)
             else (0::nat, 0::nat, 0::nat))
      in if sz = 1 then (s0, 1)
         else if sz = 0 then (RuneError, 1)
         else if n < sz then (RuneError, 1)
         else if \<not> is_cont lo hi (bs ! 0) then (RuneError, 1)
         else if sz = 2 then ((s0 mod 32) * 64 + (bs ! 0) mod 64, 2)
         else if \<not> is_cont 0x80 0xBF (bs ! 1) then (RuneError, 1)
         else if sz = 3
         then ((s0 mod 16) * 4096 + ((bs ! 0) mod 64) * 64 + (bs ! 1) mod 64, 3)
         else if \<not> is_cont 0x80 0xBF (bs ! 2) then (RuneError, 1)
         else ((s0 mod 8) * 262144 + ((bs ! 0) mod 64) * 4096 + ((bs ! 1) mod 64) * 64
                 + (bs ! 2) mod 64, 4))"

text \<open>\<open>utf8.RuneStart\<close>: the byte is not a continuation byte.\<close>

definition RuneStart :: "char \<Rightarrow> bool" where
  "RuneStart c \<longleftrightarrow> \<not> is_cont 0x80 0xBF (of_char c)"

text \<open>
  \<open>utf8.DecodeLastRuneInString\<close>: the last rune of a string and its width. It steps
  back over at most three bytes to a byte that can start a rune and decodes from there;
  unless that rune ends exactly at the end of the string the result is \<open>RuneError\<close>
  of width 1. In \<open>rune_start_back s limit k\<close> the next byte looked at is \<open>k - 1\<close>;
  when the loop runs below \<open>limit\<close> the start is \<open>limit - 1\<close>, or 0 when that is
  negative.
\<close>

fun rune_start_back :: "string \<Rightarrow> nat \<Rightarrow> nat \<Rightarrow> nat" where
  "rune_start_back s limit k =
     (if k \<le> limit then limit - 1
      else if RuneStart (s ! (k - 1)) then k - 1
      else rune_start_back s limit (k - 1))"

definition DecodeLastRune :: "string \<Rightarrow> nat \<times> nat" where
  "DecodeLastRune s =
     (let end = length s in
      if end = 0 then (RuneError, 0)
      else if (of_char (s ! (end - 1)) :: nat) < 0x80 then (of_char (s ! (end - 1)), 1)
      else
        let limit = end - 4;
            start = rune_start_back s limit (end - 1);
            (r, width) = DecodeRune (drop start s)
        in if start + width \<noteq> end then (RuneError, 1) else (r, width))"

text \<open>\<open>unicode.IsSpace\<close>: the code points with the Unicode White Space property.\<close>

definition IsSpace :: "nat \<Rightarrow> bool" where
  "IsSpace r \<longleftrightarrow>
     r \<in> {0x09, 0x0A, 0x0B, 0x0C, 0x0D, 0x20, 0x85, 0xA0, 0x1680, 0x2028, 0x2029,
           0x202F, 0x205F, 0x3000} \<or> (0x2000 \<le> r \<and> r \<le> 0x200A)"

text \<open>
  \<open>strings.TrimSpace\<close> removes the leading and the trailing white space runes
  (\<open>TrimLeftFunc\<close>, then \<open>TrimRightFunc\<close>, with \<open>unicode.IsSpace\<close>). The counter
  bounds the number of runes looked at by the length of the string.
\<close>

fun TrimLeftSpace :: "nat \<Rightarrow> string \<Rightarrow> string" where
  "TrimLeftSpace 0 s = s"
| "TrimLeftSpace (Suc n) s =
     (case DecodeRune s of
        (r, width) \<Rightarrow> if s \<noteq> [] \<and> IsSpace r then TrimLeftSpace n (drop width s) else s)"

fun TrimRightSpace :: "nat \<Rightarrow> string \<Rightarrow> string" where
  "TrimRightSpace 0 s = s"
| "TrimRightSpace (Suc n) s =
     (case DecodeLastRune s of
        (r, width) \<Rightarrow>
          if s \<noteq> [] \<and> IsSpace r then TrimRightSpace n (take (length s - width) s) else s)"

definition TrimSpace :: "string \<Rightarrow> string" where
  "TrimSpace s = (let l = TrimLeftSpace (length s) s in TrimRightSpace (length l) l)"

section \<open>Errors\<close>

text \<open>
  Every error value the package builds is a constructor. \<open>ErrField\<close> is
  \<open>fmt.Errorf("secrets: field %s: %w", name, err)\<close>; \<open>ErrWrap\<close> is an error of a
  provider that wraps another one with \<open>%w\<close>; \<open>ErrOther\<close> is any error that wraps
  nothing (a provider's own failure, a failure of an unmarshaler). \<open>ErrNum\<close> is
  \<open>strconv.NumError\<close> with its function name, its input and \<open>ErrSyntax\<close> or
  \<open>ErrRange\<close>. The arguments of the other constructors are the fields of the Go
  error types, or the values formatted into the message.
\<close>

datatype error =
    ErrNotFound
  | ErrOther string
  | ErrWrap string error
  | ErrSyntax
  | ErrRange
  | ErrNum string string error
  | ErrEmptyTag
  | ErrUnknownOption string
  | ErrEmptyKey string
  | ErrInvalidJSON error
  | ErrFragmentNotFound string
  | ErrBadIndex string string
  | ErrIndexRange string int nat
  | ErrCannotIndex string
  | ErrMarshal string error
  | ErrNoDefaultProvider string string
  | ErrUnknownProvider string string string
  | ErrConversion string string string error
  | ErrUnsupportedType string string
  | ErrVersioningNotSupported string string
  | ErrField string error
  | ErrDstNotPointer
  | ErrDstNotStruct

text \<open>\<open>errors.Is(err, ErrNotFound)\<close>: follow the \<open>Unwrap\<close> chain.\<close>

fun is_NotFound :: "error \<Rightarrow> bool" where
  "is_NotFound ErrNotFound = True"
| "is_NotFound (ErrWrap m e) = is_NotFound e"
| "is_NotFound (ErrNum f n e) = is_NotFound e"
| "is_NotFound (ErrInvalidJSON e) = is_NotFound e"
| "is_NotFound (ErrMarshal p e) = is_NotFound e"
| "is_NotFound (ErrConversion f t r e) = is_NotFound e"
| "is_NotFound (ErrField f e) = is_NotFound e"
| "is_NotFound _ = False"

section \<open>Package strconv\<close>

text \<open>
  \<open>strconv.ParseBool\<close> accepts exactly twelve spellings.
\<close>

definition ParseBool :: "string \<Rightarrow> error + bool" where
  "ParseBool str =
     (if str \<in> set [''1'', ''t'', ''T'', ''true'', ''TRUE'', ''True''] then Inr True
      else if str \<in> set [''0'', ''f'', ''F'', ''false'', ''FALSE'', ''False''] then Inr False
      else Inl (ErrNum ''ParseBool'' str ErrSyntax))"

definition FormatBool :: "bool \<Rightarrow> string" where
  "FormatBool b = (if b then ''true'' else ''false'')"

text \<open>
  \<open>strconv.ParseUint(s, 10, bitSize)\<close>: the loop over the digits stops at the first
  byte that is not a digit (syntax) or at the first value above the largest one of the
  bit size (range), whichever comes first.
\<close>

definition is_digit :: "char \<Rightarrow> bool" where
  "is_digit c \<longleftrightarrow> (48::nat) \<le> of_char c \<and> of_char c \<le> (57::nat)"

definition digit_val :: "char \<Rightarrow> nat" where
  "digit_val c = of_char c - 48"

fun parse_digits :: "nat \<Rightarrow> nat \<Rightarrow> string \<Rightarrow> error + nat" where
  "parse_digits maxVal n [] = Inr n"
| "parse_digits maxVal n (c # cs) =
     (if \<not> is_digit c then Inl ErrSyntax
      else if maxVal < n * 10 + digit_val c then Inl ErrRange
      else parse_digits maxVal (n * 10 + digit_val c) cs)"

definition ParseUint :: "string \<Rightarrow> nat \<Rightarrow> error + nat" where
  "ParseUint s bitSize =
     (if s = [] then Inl (ErrNum ''ParseUint'' s ErrSyntax)
      else case parse_digits (2 ^ bitSize - 1) 0 s of
             Inl e \<Rightarrow> Inl (ErrNum ''ParseUint'' s e)
           | Inr n \<Rightarrow> Inr n)"

text \<open>
  \<open>strconv.ParseInt(s, 10, bitSize)\<close>: an optional sign, then \<open>ParseUint\<close>; a range
  error of \<open>ParseUint\<close> and a magnitude beyond the signed range are both range errors.
\<close>

definition ParseInt :: "string \<Rightarrow> nat \<Rightarrow> error + int" where
  "ParseInt s0 bitSize =
     (if s0 = [] then Inl (ErrNum ''ParseInt'' s0 ErrSyntax)
      else
        let neg = (hd s0 = CHR ''-'');
            s = (if hd s0 = CHR ''+'' \<or> hd s0 = CHR ''-'' then tl s0 else s0);
            cutoff = (2::nat) ^ (bitSize - 1)
        in case ParseUint s bitSize of
             Inl (ErrNum f n ErrRange) \<Rightarrow> Inl (ErrNum ''ParseInt'' s0 ErrRange)
           | Inl e \<Rightarrow> Inl (ErrNum ''ParseInt'' s0 ErrSyntax)
           | Inr un \<Rightarrow>
               if \<not> neg \<and> cutoff \<le> un then Inl (ErrNum ''ParseInt'' s0 ErrRange)
               else if neg \<and> cutoff < un then Inl (ErrNum ''ParseInt'' s0 ErrRange)
               else Inr (if neg then - int un else int un))"

text \<open>\<open>strconv.Atoi\<close> is \<open>ParseInt(s, 10, 0)\<close> for the 64-bit \<open>int\<close>.\<close>

definition Atoi :: "string \<Rightarrow> error + int" where
  "Atoi s =
     (case ParseInt s 64 of
        Inl (ErrNum f n e) \<Rightarrow> Inl (ErrNum ''Atoi'' n e)
      | Inl e \<Rightarrow> Inl e
      | Inr n \<Rightarrow> Inr n)"

text \<open>\<open>strconv.FormatUint(n, 10)\<close> and \<open>strconv.FormatInt(i, 10)\<close>.\<close>

fun FormatUint :: "nat \<Rightarrow> string" where
  "FormatUint n =
     (if n < 10 then [''0123456789'' ! n]
      else FormatUint (n div 10) @ [''0123456789'' ! (n mod 10)])"

definition FormatInt :: "int \<Rightarrow> string" where
  "FormatInt i = (if i < 0 then ''-'' @ FormatUint (nat (- i)) else FormatUint (nat i))"

section \<open>Providers and change events (secrets.go)\<close>

text \<open>
  A provider answers \<open>Get(ctx, key)\<close> with bytes or an error. \<open>GetVersion\<close> is
  \<open>None\<close> for a provider that does not implement \<open>VersionedProvider\<close>. Within one
  call of the resolver a provider is taken as a function of its arguments.
\<close>

record provider =
  Get :: "string \<Rightarrow> error + string"
  GetVersion :: "(string \<Rightarrow> string \<Rightarrow> error + string) option"

record ChangeEvent =
  Field :: string
  Key :: string
  Provider :: string
  OldValue :: string
  NewValue :: string

section \<open>The tag parser (tag.go)\<close>

record parsedTag =
  Scheme :: string
  Key :: string
  Fragment :: string
  Optional :: bool
  Version :: string

definition zeroTag :: parsedTag where
  "zeroTag = \<lparr>Scheme = [], Key = [], Fragment = [], Optional = False, Version = []\<rparr>"

text \<open>The loop over \<open>parts[1:]\<close>: the first unknown option ends the parse.\<close>

fun parseOptions :: "parsedTag \<Rightarrow> string list \<Rightarrow> error + parsedTag" where
  "parseOptions t [] = Inr t"
| "parseOptions t (opt # opts) =
     (if opt = ''optional'' then parseOptions (t\<lparr>Optional := True\<rparr>) opts
      else if HasPrefix opt ''version=''
      then parseOptions (t\<lparr>Version := TrimPrefix opt ''version=''\<rparr>) opts
      else Inl (ErrUnknownOption opt))"

definition parseTag :: "string \<Rightarrow> error + parsedTag" where
  "parseTag raw =
     (if raw = [] then Inl ErrEmptyTag
      else
        let parts = Split CHR '','' raw;
            uri = hd parts
        in case parseOptions zeroTag (tl parts) of
             Inl e \<Rightarrow> Inl e
           | Inr t \<Rightarrow>
               let idx = LastIndex CHR ''#'' uri;
                   t1 = (if 0 \<le> idx then t\<lparr>Fragment := drop (nat (idx + 1)) uri\<rparr> else t);
                   uri1 = (if 0 \<le> idx then take (nat idx) uri else uri);
                   t2 = (case Cut uri1 ''://'' of
                           (scheme, rest, ok) \<Rightarrow>
                             if ok then t1\<lparr>Scheme := scheme, Key := rest\<rparr>
                             else t1\<lparr>Key := uri1\<rparr>)
               in if Key t2 = [] then Inl (ErrEmptyKey raw) else Inr t2)"

text \<open>\<open>parsedTag.URI\<close>: the canonical URI used for deduplication.\<close>

definition URI :: "parsedTag \<Rightarrow> string" where
  "URI t = (if Scheme t \<noteq> [] then Scheme t @ ''://'' @ Key t else Key t)"

subsection \<open>The tag grammar, as the specification words it\<close>

text \<open>
  The head of the comma-separated list is the URI, the tail the options. The fragment is
  what follows the last \<open>#\<close> of the URI; the scheme is what precedes the first
  \<open>://\<close> of the rest.
\<close>
definition is_fragment_split :: "string \<Rightarrow> string \<Rightarrow> string \<Rightarrow> bool" where
  "is_fragment_split uri body frag \<longleftrightarrow>
     (CHR ''#'' \<notin> set uri \<and> body = uri \<and> frag = []) \<or>
     (uri = body @ ''#'' @ frag \<and> CHR ''#'' \<notin> set frag)"

definition is_scheme_split :: "string \<Rightarrow> string \<Rightarrow> string \<Rightarrow> bool" where
  "is_scheme_split body scheme key \<longleftrightarrow>
     (\<not> sublist ''://'' body \<and> scheme = [] \<and> key = body) \<or>
     (body = scheme @ ''://'' @ key \<and> \<not> sublist ''://'' (scheme @ '':/''))"

fun Join :: "char \<Rightarrow> string list \<Rightarrow> string" where
  "Join c [] = []"
| "Join c [p] = p"
| "Join c (p # q # ps) = p @ c # Join c (q # ps)"

section \<open>The fragment extractor (fragment.go)\<close>

text \<open>
  What \<open>json.Unmarshal\<close> stores into an \<open>any\<close>: \<open>nil\<close>, \<open>bool\<close>,
  \<open>float64\<close>, \<open>string\<close>, \<open>[]any\<close> or \<open>map[string]any\<close>. A \<open>float64\<close> is
  given by the rational number it denotes. A map is a list of its entries, looked up with
  \<open>map_of\<close>.
\<close>

datatype json =
    JNull
  | JBool bool
  | JNumber rat
  | JString string
  | JArray "json list"
  | JObject "(string \<times> json) list"

text \<open>
  The functions of the standard library that the extractor calls and that are not
  written out here are parameters: the JSON decoder and encoder, the formatting of a
  \<open>float64\<close> (\<open>strconv.FormatFloat(v, 'f', -1, 64)\<close>), and the result of the
  conversion \<open>int64(v)\<close> for a \<open>v\<close> outside the range of \<open>int64\<close>, which depends on
  the platform.
\<close>

record json_lib =
  json_Unmarshal :: "string \<Rightarrow> error + json"
  json_Marshal :: "json \<Rightarrow> error + string"
  FormatFloat :: "rat \<Rightarrow> string"
  int64_overflow :: "rat \<Rightarrow> int"

text \<open>The conversion \<open>int64(v)\<close> discards the fraction.\<close>

definition int64_of_float :: "('a json_lib_scheme) \<Rightarrow> rat \<Rightarrow> int" where
  "int64_of_float L v =
     (let t = (if 0 \<le> v then floor v else ceiling v)
      in if - (2 ^ 63) \<le> t \<and> t < 2 ^ 63 then t else int64_overflow L v)"

text \<open>
  The conversion \<open>float64(i)\<close> rounds an integer to 53 significant bits, to nearest
  and to even on a tie.
\<close>

fun bitlen :: "nat \<Rightarrow> nat" where
  "bitlen n = (if n = 0 then 0 else Suc (bitlen (n div 2)))"

definition float64_of_int64 :: "int \<Rightarrow> rat" where
  "float64_of_int64 i =
     (let a = nat \<bar>i\<bar>;
          e = bitlen a - 53;
          q = a div 2 ^ e;
          r = a mod 2 ^ e;
          q' = (if 2 ^ e < 2 * r \<or> (2 * r = 2 ^ e \<and> odd q) then q + 1 else q)
      in of_int (sgn i * int (q' * 2 ^ e)))"

text \<open>The loop over the path segments.\<close>

fun walk :: "string \<Rightarrow> json \<Rightarrow> string list \<Rightarrow> error + json" where
  "walk path current [] = Inr current"
| "walk path current (part # parts) =
     (case current of
        JObject v \<Rightarrow>
          (case map_of v part of
             None \<Rightarrow> Inl (ErrFragmentNotFound path)
           | Some val \<Rightarrow> walk path val parts)
      | JArray v \<Rightarrow>
          (case Atoi part of
             Inl e \<Rightarrow> Inl (ErrBadIndex path part)
           | Inr idx \<Rightarrow>
               if idx < 0 \<or> int (length v) \<le> idx
               then Inl (ErrIndexRange path idx (length v))
               else walk path (v ! nat idx) parts)
      | _ \<Rightarrow> Inl (ErrCannotIndex path))"

text \<open>The conversion of the final value to bytes.\<close>

definition render :: "('a json_lib_scheme) \<Rightarrow> string \<Rightarrow> json \<Rightarrow> error + string" where
  "render L path current =
     (case current of
        JString v \<Rightarrow> Inr v
      | JNumber v \<Rightarrow>
          if v = float64_of_int64 (int64_of_float L v)
          then Inr (FormatInt (int64_of_float L v))
          else Inr (FormatFloat L v)
      | JBool v \<Rightarrow> Inr (FormatBool v)
      | JNull \<Rightarrow> Inr ''null''
      | _ \<Rightarrow>
          (case json_Marshal L current of
             Inl e \<Rightarrow> Inl (ErrMarshal path e)
           | Inr b \<Rightarrow> Inr b))"

definition extractFragment :: "('a json_lib_scheme) \<Rightarrow> string \<Rightarrow> string \<Rightarrow> error + string" where
  "extractFragment L data path =
     (case json_Unmarshal L data of
        Inl e \<Rightarrow> Inl (ErrInvalidJSON e)
      | Inr root0 \<Rightarrow>
          (case walk path root0 (Split CHR ''.'' path) of
             Inl e \<Rightarrow> Inl e
           | Inr current \<Rightarrow> render L path current))"

section \<open>The cached provider\<close>

text \<open>
  A \<open>time.Time\<close> is a number of nanoseconds, a \<open>time.Duration\<close> too. The calls that
  reach the underlying provider are returned with the result, so that a call that was
  not made can be told from one that was.
\<close>

record cacheEntry =
  data :: string
  expires :: int

record CachedProvider =
  provider :: provider
  ttl :: int
  entries :: "string \<rightharpoonup> cacheEntry"

datatype call = CallGet string | CallGetVersion string string

definition NewCachedProvider :: "provider \<Rightarrow> int \<Rightarrow> CachedProvider" where
  "NewCachedProvider p t = \<lparr>provider = p, ttl = t, entries = Map.empty\<rparr>"

text \<open>\<open>CachedProvider.get\<close>, with the reading of the clock as an argument.\<close>

definition cache_get :: "CachedProvider \<Rightarrow> int \<Rightarrow> string \<Rightarrow> string option" where
  "cache_get c now key =
     (case entries c key of
        None \<Rightarrow> None
      | Some entry \<Rightarrow> if expires entry < now then None else Some (data entry))"

text \<open>\<open>CachedProvider.set\<close> reads the clock again.\<close>

definition cache_set :: "CachedProvider \<Rightarrow> int \<Rightarrow> string \<Rightarrow> string \<Rightarrow> CachedProvider" where
  "cache_set c now key d =
     c\<lparr>entries := (entries c)(key \<mapsto> \<lparr>data = d, expires = now + ttl c\<rparr>)\<rparr>"

text \<open>
  \<open>CachedProvider.Get\<close>: \<open>now\<close> is the clock when the entry is looked up, \<open>now'\<close>
  the clock when a fetched value is stored.
\<close>

definition CachedProvider_Get ::
  "CachedProvider \<Rightarrow> int \<Rightarrow> int \<Rightarrow> string \<Rightarrow> (error + string) \<times> CachedProvider \<times> call list" where
  "CachedProvider_Get c now now' key =
     (case cache_get c now key of
        Some d \<Rightarrow> (Inr d, c, [])
      | None \<Rightarrow>
          (case Get (provider c) key of
             Inl err \<Rightarrow> (Inl err, c, [CallGet key])
           | Inr d \<Rightarrow> (Inr d, cache_set c now' key d, [CallGet key])))"

definition CachedProvider_GetVersion ::
  "CachedProvider \<Rightarrow> int \<Rightarrow> int \<Rightarrow> string \<Rightarrow> string
     \<Rightarrow> (error + string) \<times> CachedProvider \<times> call list" where
  "CachedProvider_GetVersion c now now' key version =
     (case GetVersion (provider c) of
        None \<Rightarrow> (Inl (ErrVersioningNotSupported [] ''cached''), c, [])
      | Some vp \<Rightarrow>
          let cacheKey = key @ [CHR 0x00] @ version
          in case cache_get c now cacheKey of
               Some d \<Rightarrow> (Inr d, c, [])
             | None \<Rightarrow>
                 (case vp key version of
                    Inl err \<Rightarrow> (Inl err, c, [CallGetVersion key version])
                  | Inr d \<Rightarrow> (Inr d, cache_set c now' cacheKey d, [CallGetVersion key version])))"

definition Clear :: "CachedProvider \<Rightarrow> CachedProvider" where
  "Clear c = c\<lparr>entries := Map.empty\<rparr>"

section \<open>Reflection: types, values and locations\<close>

text \<open>
  A Go type, as package \<open>reflect\<close> shows it to the resolver: a struct type with its
  fields, a pointer type, or a type of any other kind. A struct type and a basic type
  carry their name (\<open>Type.String()\<close>), so that two types are equal exactly when Go
  holds them identical. \<open>KBytes\<close> is a slice of \<open>uint8\<close>; \<open>KInt\<close>, \<open>KUint\<close> and
  \<open>KFloat\<close> carry \<open>Type.Bits()\<close>; \<open>KOther\<close> is every kind the resolver does not
  convert to. A struct type that contains itself through pointers has no finite
  description of this form: on such a type \<open>hasSecretTags\<close> and \<open>collectFields\<close> do not
  return.
\<close>

datatype kind = KString | KBytes | KBool | KInt nat | KUint nat | KFloat nat | KOther

text \<open>
  \<open>reflect.StructField\<close> without its type: \<open>Tag_secret\<close> is
  \<open>field.Tag.Lookup("secret")\<close>.
\<close>

record StructField =
  Name :: string
  Anonymous :: bool
  IsExported :: bool
  Tag_secret :: "string option"

datatype gtype =
    TStruct string "(StructField \<times> gtype) list"
  | TPointer gtype
  | TBasic string kind

fun type_String :: "gtype \<Rightarrow> string" where
  "type_String (TStruct n fs) = n"
| "type_String (TPointer t) = ''*'' @ type_String t"
| "type_String (TBasic n k) = n"

definition Duration_type :: gtype where
  "Duration_type = TBasic ''time.Duration'' (KInt 64)"

text \<open>
  A Go value. A pointer is \<open>nil\<close> or holds its pointee; the pointers the resolver
  follows are the ones it finds in the record it is given, and no two of them are
  aliases in a freshly built record.
\<close>

datatype gval =
    VStruct "gval list"
  | VPointer "gval option"
  | VString string
  | VBytes string
  | VBool bool
  | VInt int
  | VUint nat
  | VFloat rat
  | VOther string

text \<open>The zero value of a type (\<open>reflect.New(t).Elem()\<close>).\<close>

fun zero :: "gtype \<Rightarrow> gval" where
  "zero (TStruct n fs) = VStruct (map (\<lambda>f. zero (snd f)) fs)"
| "zero (TPointer t) = VPointer None"
| "zero (TBasic n k) =
     (case k of
        KString \<Rightarrow> VString []
      | KBytes \<Rightarrow> VBytes []
      | KBool \<Rightarrow> VBool False
      | KInt b \<Rightarrow> VInt 0
      | KUint b \<Rightarrow> VUint 0
      | KFloat b \<Rightarrow> VFloat 0
      | KOther \<Rightarrow> VOther [])"

text \<open>
  An addressable \<open>reflect.Value\<close> inside the record is the path that leads to it from
  the record: \<open>PField i\<close> is \<open>Value.Field(i)\<close>, \<open>PElem\<close> is \<open>Value.Elem()\<close> of a
  pointer. \<open>get_at\<close> reads the value at a path, \<open>update_at\<close> changes it
  (\<open>Value.Set\<close>).
\<close>

datatype step = PField nat | PElem

type_synonym path = "step list"

fun get_at :: "gval \<Rightarrow> path \<Rightarrow> gval option" where
  "get_at v [] = Some v"
| "get_at (VStruct vs) (PField i # p) = (if i < length vs then get_at (vs ! i) p else None)"
| "get_at (VPointer (Some v)) (PElem # p) = get_at v p"
| "get_at _ _ = None"

fun update_at :: "path \<Rightarrow> (gval \<Rightarrow> gval) \<Rightarrow> gval \<Rightarrow> gval" where
  "update_at [] f v = f v"
| "update_at (PField i # p) f (VStruct vs) =
     (if i < length vs then VStruct (vs[i := update_at p f (vs ! i)]) else VStruct vs)"
| "update_at (PElem # p) f (VPointer (Some v)) = VPointer (Some (update_at p f v))"
| "update_at _ f v = v"

section \<open>The resolver\<close>

text \<open>
  The functions of the standard library that the resolver calls and that are not
  written out are parameters, with the method sets of the named types:
  \<open>UnmarshalText L n\<close> is the method \<open>UnmarshalText\<close> of the pointer to the type
  named \<open>n\<close>, when that pointer type implements \<open>encoding.TextUnmarshaler\<close>. The
  method gets the raw bytes and the value of its receiver and gives the new value of the
  receiver and its error.
\<close>

record go_lib = json_lib +
  ParseFloat :: "string \<Rightarrow> nat \<Rightarrow> error + rat"
  ParseDuration :: "string \<Rightarrow> error + int"
  Duration_String :: "int \<Rightarrow> string"
  UnmarshalText :: "string \<Rightarrow> (string \<Rightarrow> gval \<Rightarrow> gval \<times> error option) option"

record resolverConfig =
  defaultProvider :: "provider option"
  providers :: "string \<rightharpoonup> provider"
  parallelism :: int

subsection \<open>Conversion: \<open>setField\<close>\<close>

text \<open>
  \<open>setField L ft fieldName raw fv\<close> is \<open>setField(fv, fieldName, raw)\<close> for a value
  \<open>fv\<close> of type \<open>ft\<close>: it gives the new value of the slot and the error. Every slot the
  resolver sets is addressable.
\<close>

definition conversion_error :: "string \<Rightarrow> gtype \<Rightarrow> string \<Rightarrow> error \<Rightarrow> error" where
  "conversion_error fieldName ft raw err = ErrConversion fieldName (type_String ft) raw err"

definition setBasic :: "go_lib \<Rightarrow> gtype \<Rightarrow> string \<Rightarrow> string \<Rightarrow> gval \<Rightarrow> gval \<times> error option" where
  "setBasic L ft fieldName raw fv =
     (case UnmarshalText L (type_String ft) of
        Some tu \<Rightarrow>
          (case tu raw fv of
             (v, Some err) \<Rightarrow> (v, Some (conversion_error fieldName ft raw err))
           | (v, None) \<Rightarrow> (v, None))
      | None \<Rightarrow>
          (case ft of
             TBasic n KString \<Rightarrow> (VString raw, None)
           | TBasic n KBytes \<Rightarrow> (VBytes raw, None)
           | TBasic n KBool \<Rightarrow>
               (case ParseBool (TrimSpace raw) of
                  Inl err \<Rightarrow> (fv, Some (conversion_error fieldName ft raw err))
                | Inr b \<Rightarrow> (VBool b, None))
           | TBasic n (KInt bits) \<Rightarrow>
               if ft = Duration_type
               then (case ParseDuration L (TrimSpace raw) of
                       Inl err \<Rightarrow> (fv, Some (conversion_error fieldName ft raw err))
                     | Inr d \<Rightarrow> (VInt d, None))
               else (case ParseInt (TrimSpace raw) bits of
                       Inl err \<Rightarrow> (fv, Some (conversion_error fieldName ft raw err))
                     | Inr n \<Rightarrow> (VInt n, None))
           | TBasic n (KUint bits) \<Rightarrow>
               (case ParseUint (TrimSpace raw) bits of
                  Inl err \<Rightarrow> (fv, Some (conversion_error fieldName ft raw err))
                | Inr n \<Rightarrow> (VUint n, None))
           | TBasic n (KFloat bits) \<Rightarrow>
               (case ParseFloat L (TrimSpace raw) bits of
                  Inl err \<Rightarrow> (fv, Some (conversion_error fieldName ft raw err))
                | Inr n \<Rightarrow> (VFloat n, None))
           | _ \<Rightarrow> (fv, Some (ErrUnsupportedType fieldName (type_String ft)))))"

fun setField :: "go_lib \<Rightarrow> gtype \<Rightarrow> string \<Rightarrow> string \<Rightarrow> gval \<Rightarrow> gval \<times> error option" where
  "setField L (TPointer t) fieldName raw fv =
     (case setField L t fieldName raw (zero t) of
        (v, Some err) \<Rightarrow> (fv, Some err)
      | (v, None) \<Rightarrow> (VPointer (Some v), None))"
| "setField L ft fieldName raw fv = setBasic L ft fieldName raw fv"

subsection \<open>The walker: \<open>collectFields\<close>\<close>

text \<open>
  \<open>isVersionedType\<close>: a struct of exactly two fields named \<open>Current\<close> and
  \<open>Previous\<close> of the same type.
\<close>

definition isVersionedType :: "gtype \<Rightarrow> bool" where
  "isVersionedType t =
     (case t of
        TStruct n [(f0, t0), (f1, t1)] \<Rightarrow>
          Name f0 = ''Current'' \<and> Name f1 = ''Previous'' \<and> t0 = t1
      | _ \<Rightarrow> False)"

text \<open>
  \<open>fieldInfo\<close>: the \<open>reflect.Value\<close> of the field is its path in the record, with its
  type.
\<close>

record fieldInfo =
  fieldName :: string
  fieldValue :: path
  fieldType :: gtype
  tag :: parsedTag
  provider :: provider
  providerName :: string
  isVersioned :: bool

text \<open>
  \<open>hasSecretTags\<close>, on the fields of a struct type: some field, or some field of a
  nested struct or pointed-to struct, has a \<open>secret\<close> tag.
\<close>

fun hasSecretTags :: "(StructField \<times> gtype) list \<Rightarrow> bool" where
  "hasSecretTags [] = False"
| "hasSecretTags ((f, ft) # rest) =
     (if Tag_secret f \<noteq> None then True
      else case ft of
             TPointer (TStruct n fs) \<Rightarrow> if hasSecretTags fs then True else hasSecretTags rest
           | TStruct n fs \<Rightarrow> if hasSecretTags fs then True else hasSecretTags rest
           | _ \<Rightarrow> hasSecretTags rest)"

text \<open>
  The state of the walk: the record (the walker assigns to nil pointers in it), the
  collected fields and the collected errors.
\<close>

type_synonym walk_state = "gval \<times> fieldInfo list \<times> error list"

text \<open>
  The first pass on a field with a \<open>secret\<close> tag, from \<open>parseTag\<close> on: the error to
  append, or the \<open>fieldInfo\<close> to append.
\<close>

definition taggedField ::
  "resolverConfig \<Rightarrow> path \<Rightarrow> StructField \<Rightarrow> gtype \<Rightarrow> string \<Rightarrow> error + fieldInfo" where
  "taggedField cfg fv field ft tagStr =
     (case parseTag tagStr of
        Inl err \<Rightarrow> Inl (ErrField (Name field) err)
      | Inr t \<Rightarrow>
          (case (if Scheme t \<noteq> []
                 then (case providers cfg (Scheme t) of
                         None \<Rightarrow> Inl (ErrUnknownProvider (Name field) (Scheme t) (URI t))
                       | Some p \<Rightarrow> Inr (p, Scheme t))
                 else (case defaultProvider cfg of
                         None \<Rightarrow> Inl (ErrNoDefaultProvider (Name field) (Key t))
                       | Some p \<Rightarrow> Inr (p, ''default''))) of
             Inl err \<Rightarrow> Inl err
           | Inr (p, pname) \<Rightarrow>
               if isVersionedType ft \<and> GetVersion p = None
               then Inl (ErrVersioningNotSupported (Name field) pname)
               else Inr \<lparr>fieldName = Name field, fieldValue = fv, fieldType = ft, tag = t,
                          provider = p, providerName = pname,
                          isVersioned = isVersionedType ft\<rparr>))"

text \<open>The first pass on a field that is not an embedded struct.\<close>

definition firstPassField ::
  "resolverConfig \<Rightarrow> path \<Rightarrow> StructField \<Rightarrow> gtype \<Rightarrow> walk_state \<Rightarrow> walk_state" where
  "firstPassField cfg fv field ft s =
     (case s of
        (v, infos, errs) \<Rightarrow>
          if \<not> IsExported field then s
          else case Tag_secret field of
                 None \<Rightarrow> s
               | Some tagStr \<Rightarrow>
                   (case taggedField cfg fv field ft tagStr of
                      Inl err \<Rightarrow> (v, infos, errs @ [err])
                    | Inr fi \<Rightarrow> (v, infos @ [fi], errs)))"

text \<open>The second pass on a nil pointer to a struct: \<open>actualVal.Set(reflect.New(...))\<close>.\<close>

definition initNilPointer :: "path \<Rightarrow> gtype \<Rightarrow> walk_state \<Rightarrow> walk_state" where
  "initNilPointer fv elemType s =
     (case s of
        (v, infos, errs) \<Rightarrow>
          if get_at v fv = Some (VPointer None)
          then (update_at fv (\<lambda>_. VPointer (Some (zero elemType))) v, infos, errs)
          else s)"

text \<open>
  \<open>collectFields cfg sv st s\<close> walks the struct at path \<open>sv\<close> whose type has the fields
  \<open>st\<close>. \<open>pass1\<close> and \<open>pass2\<close> are its two loops, from field \<open>i\<close> on.
\<close>

fun collectFields ::
    "resolverConfig \<Rightarrow> path \<Rightarrow> (StructField \<times> gtype) list \<Rightarrow> walk_state \<Rightarrow> walk_state"
  and pass1 ::
    "resolverConfig \<Rightarrow> path \<Rightarrow> nat \<Rightarrow> (StructField \<times> gtype) list \<Rightarrow> walk_state \<Rightarrow> walk_state"
  and pass2 ::
    "resolverConfig \<Rightarrow> path \<Rightarrow> nat \<Rightarrow> (StructField \<times> gtype) list \<Rightarrow> walk_state \<Rightarrow> walk_state"
  where
  "collectFields cfg sv st s = pass2 cfg sv 0 st (pass1 cfg sv 0 st s)"
| "pass1 cfg sv i [] s = s"
| "pass1 cfg sv i ((field, ft) # rest) s =
     (case ft of
        TStruct n fs \<Rightarrow>
          if Anonymous field
          then pass1 cfg sv (Suc i) rest (collectFields cfg (sv @ [PField i]) fs s)
          else pass1 cfg sv (Suc i) rest (firstPassField cfg (sv @ [PField i]) field ft s)
      | _ \<Rightarrow> pass1 cfg sv (Suc i) rest (firstPassField cfg (sv @ [PField i]) field ft s))"
| "pass2 cfg sv i [] s = s"
| "pass2 cfg sv i ((field, ft) # rest) s =
     (if Anonymous field \<or> \<not> IsExported field \<or> Tag_secret field \<noteq> None
      then pass2 cfg sv (Suc i) rest s
      else case ft of
             TPointer (TStruct n fs) \<Rightarrow>
               if hasSecretTags fs
               then pass2 cfg sv (Suc i) rest
                      (collectFields cfg (sv @ [PField i, PElem]) fs
                         (initNilPointer (sv @ [PField i]) (TStruct n fs) s))
               else pass2 cfg sv (Suc i) rest
                      (initNilPointer (sv @ [PField i]) (TStruct n fs) s)
           | TStruct n fs \<Rightarrow>
               if hasSecretTags fs
               then pass2 cfg sv (Suc i) rest (collectFields cfg (sv @ [PField i]) fs s)
               else pass2 cfg sv (Suc i) rest s
           | _ \<Rightarrow> pass2 cfg sv (Suc i) rest s)"

subsection \<open>Planning and fetching\<close>

record fetchKey =
  uri :: string
  version :: string

definition fetchKey_String :: "fetchKey \<Rightarrow> string" where
  "fetchKey_String fk =
     (if fetchKey.version fk \<noteq> [] then uri fk @ ''@'' @ fetchKey.version fk else uri fk)"

record fetchSpec =
  key :: fetchKey
  fi :: fieldInfo
  version :: string

text \<open>
  One step of the planning loop: \<open>seen\<close> is the map from \<open>fetchKey.String()\<close> to
  \<open>true\<close>; a key whose string has been seen adds no \<open>fetchSpec\<close>.
\<close>

definition addSpec ::
  "fetchKey \<Rightarrow> fieldInfo \<Rightarrow> string \<Rightarrow> (string \<Rightarrow> bool) \<times> fetchSpec list
     \<Rightarrow> (string \<Rightarrow> bool) \<times> fetchSpec list" where
  "addSpec fk f ver s =
     (case s of
        (seen, specs) \<Rightarrow>
          if \<not> seen (fetchKey_String fk)
          then (seen(fetchKey_String fk := True),
                specs @ [\<lparr>key = fk, fi = f, version = ver\<rparr>])
          else (seen, specs))"

fun planFetches ::
  "fieldInfo list \<Rightarrow> (string \<Rightarrow> bool) \<times> fetchSpec list \<Rightarrow> (string \<Rightarrow> bool) \<times> fetchSpec list" where
  "planFetches [] s = s"
| "planFetches (f # fs) s =
     planFetches fs
       (if isVersioned f
        then addSpec \<lparr>uri = URI (tag f), version = ''previous''\<rparr> f ''previous''
               (addSpec \<lparr>uri = URI (tag f), version = []\<rparr> f [] s)
        else addSpec \<lparr>uri = URI (tag f), version = Version (tag f)\<rparr> f (Version (tag f)) s)"

definition fetchSpecs :: "fieldInfo list \<Rightarrow> fetchSpec list" where
  "fetchSpecs infos = snd (planFetches infos (\<lambda>_. False, []))"

text \<open>
  What one goroutine does for its \<open>fetchSpec\<close>: the provider call, or the error when a
  version is asked of a provider without versions.
\<close>

definition fetchOne :: "fetchSpec \<Rightarrow> error + string" where
  "fetchOne spec =
     (if fetchSpec.version spec \<noteq> []
      then (case GetVersion (provider (fi spec)) of
              None \<Rightarrow>
                Inl (ErrVersioningNotSupported (fieldName (fi spec)) (providerName (fi spec)))
            | Some vp \<Rightarrow> vp (Key (tag (fi spec))) (fetchSpec.version spec))
      else Get (provider (fi spec)) (Key (tag (fi spec))))"

text \<open>
  The provider calls of one \<open>Resolve\<close>: one for each \<open>fetchSpec\<close>, except where the
  provider has no versions.
\<close>

definition callOf :: "fetchSpec \<Rightarrow> (string \<times> call) list" where
  "callOf spec =
     (if fetchSpec.version spec \<noteq> []
      then (case GetVersion (provider (fi spec)) of
              None \<Rightarrow> []
            | Some vp \<Rightarrow>
                [(providerName (fi spec),
                  CallGetVersion (Key (tag (fi spec))) (fetchSpec.version spec))])
      else [(providerName (fi spec), CallGet (Key (tag (fi spec))))])"

text \<open>
  The goroutines store their results in a map from \<open>fetchKey.String()\<close> to the result,
  under a mutex. The strings of the planned keys are pairwise different, so the map does
  not depend on the order in which the goroutines finish; it is built here in the order
  of the plan.
\<close>

fun fetchAll ::
  "fetchSpec list \<Rightarrow> (string \<rightharpoonup> error + string) \<Rightarrow> (string \<rightharpoonup> error + string)" where
  "fetchAll [] results = results"
| "fetchAll (spec # specs) results =
     fetchAll specs (results(fetchKey_String (key spec) \<mapsto> fetchOne spec))"

subsection \<open>Assignment\<close>

text \<open>
  \<open>setField\<close> on the slot at a path of the record: the record with the new value of
  the slot, and the error.
\<close>

definition setFieldAt ::
  "go_lib \<Rightarrow> path \<Rightarrow> gtype \<Rightarrow> string \<Rightarrow> string \<Rightarrow> gval \<Rightarrow> gval \<times> error option" where
  "setFieldAt L fv ft name raw v =
     (case get_at v fv of
        None \<Rightarrow> (v, None)
      | Some cur \<Rightarrow>
          (case setField L ft name raw cur of
             (new, err) \<Rightarrow> (update_at fv (\<lambda>_. new) v, err)))"

text \<open>The fragment, when the tag has one.\<close>

definition fragmentOf :: "go_lib \<Rightarrow> parsedTag \<Rightarrow> string \<Rightarrow> error + string" where
  "fragmentOf L t d = (if Fragment t \<noteq> [] then extractFragment L d (Fragment t) else Inr d)"

text \<open>The type of \<open>Field(i)\<close> of a struct type.\<close>

definition Field_type :: "gtype \<Rightarrow> nat \<Rightarrow> gtype" where
  "Field_type t i = (case t of TStruct n fs \<Rightarrow> snd (fs ! i) | _ \<Rightarrow> t)"

text \<open>
  The body of the assignment loop for one field. The state is the record and the list
  \<open>assignErrs\<close>. A result that is missing from the map is a nil pointer, and reading its
  error panics: the body then has no result (\<open>None\<close>).
\<close>

definition assignVersioned ::
  "go_lib \<Rightarrow> (string \<rightharpoonup> error + string) \<Rightarrow> fieldInfo \<Rightarrow> gval \<times> error list
     \<Rightarrow> (gval \<times> error list) option" where
  "assignVersioned L results f s =
     (case s of
        (v, errs) \<Rightarrow>
          (case results (fetchKey_String \<lparr>uri = URI (tag f), version = []\<rparr>) of
             None \<Rightarrow> None
           | Some (Inl err) \<Rightarrow>
               if Optional (tag f) \<and> is_NotFound err then Some s
               else Some (v, errs @ [ErrField (fieldName f) err])
           | Some (Inr currentData) \<Rightarrow>
               (case fragmentOf L (tag f) currentData of
                  Inl fragErr \<Rightarrow> Some (v, errs @ [ErrField (fieldName f) fragErr])
                | Inr currentVal \<Rightarrow>
                    (case setFieldAt L (fieldValue f @ [PField 0]) (Field_type (fieldType f) 0)
                            (fieldName f @ ''.Current'') currentVal v of
                       (v1, Some err) \<Rightarrow> Some (v1, errs @ [err])
                     | (v1, None) \<Rightarrow>
                         (case results
                                 (fetchKey_String \<lparr>uri = URI (tag f), version = ''previous''\<rparr>) of
                            None \<Rightarrow> None
                          | Some (Inl err) \<Rightarrow>
                              if \<not> is_NotFound err
                              then Some (v1, errs @ [ErrField (fieldName f) err])
                              else Some (v1, errs)
                          | Some (Inr previousData) \<Rightarrow>
                              (case fragmentOf L (tag f) previousData of
                                 Inl fragErr \<Rightarrow>
                                   Some (v1, errs @ [ErrField (fieldName f) fragErr])
                               | Inr previousVal \<Rightarrow>
                                   (case setFieldAt L (fieldValue f @ [PField 1])
                                           (Field_type (fieldType f) 1)
                                           (fieldName f @ ''.Previous'') previousVal v1 of
                                      (v2, Some err) \<Rightarrow> Some (v2, errs @ [err])
                                    | (v2, None) \<Rightarrow> Some (v2, errs))))))))"

definition assignNormal ::
  "go_lib \<Rightarrow> (string \<rightharpoonup> error + string) \<Rightarrow> fieldInfo \<Rightarrow> gval \<times> error list
     \<Rightarrow> (gval \<times> error list) option" where
  "assignNormal L results f s =
     (case s of
        (v, errs) \<Rightarrow>
          (case results (fetchKey_String \<lparr>uri = URI (tag f), version = Version (tag f)\<rparr>) of
             None \<Rightarrow> None
           | Some (Inl err) \<Rightarrow>
               if Optional (tag f) \<and> is_NotFound err then Some s
               else Some (v, errs @ [ErrField (fieldName f) err])
           | Some (Inr d) \<Rightarrow>
               (case fragmentOf L (tag f) d of
                  Inl fragErr \<Rightarrow> Some (v, errs @ [ErrField (fieldName f) fragErr])
                | Inr val \<Rightarrow>
                    (case setFieldAt L (fieldValue f) (fieldType f) (fieldName f) val v of
                       (v1, Some err) \<Rightarrow> Some (v1, errs @ [err])
                     | (v1, None) \<Rightarrow> Some (v1, errs)))))"

definition assignField ::
  "go_lib \<Rightarrow> (string \<rightharpoonup> error + string) \<Rightarrow> fieldInfo \<Rightarrow> gval \<times> error list
     \<Rightarrow> (gval \<times> error list) option" where
  "assignField L results f s =
     (if isVersioned f then assignVersioned L results f s else assignNormal L results f s)"

fun assignFields ::
  "go_lib \<Rightarrow> (string \<rightharpoonup> error + string) \<Rightarrow> fieldInfo list \<Rightarrow> gval \<times> error list
     \<Rightarrow> (gval \<times> error list) option" where
  "assignFields L results [] s = Some s"
| "assignFields L results (f # fs) s =
     (case assignField L results f s of
        None \<Rightarrow> None
      | Some s' \<Rightarrow> assignFields L results fs s')"

subsection \<open>\<open>Resolve\<close>\<close>

text \<open>
  \<open>dst\<close> is an \<open>any\<close>: nothing (the nil interface), or a type and a value of it. The
  result is the record \<open>dst\<close> points to after the call, and the errors that
  \<open>errors.Join\<close> joins: the returned error is nil exactly when the list is empty.
  \<open>None\<close> is a panic.
\<close>

definition Resolve ::
  "go_lib \<Rightarrow> resolverConfig \<Rightarrow> (gtype \<times> gval) option \<Rightarrow> (gval option \<times> error list) option" where
  "Resolve L cfg dst =
     (case dst of
        Some (TPointer t, VPointer (Some elem)) \<Rightarrow>
          (case t of
             TStruct n st \<Rightarrow>
               (case collectFields cfg [] st (elem, [], []) of
                  (elem1, infos, collectErrs) \<Rightarrow>
                    if collectErrs \<noteq> [] \<and> infos = [] then Some (Some elem1, collectErrs)
                    else
                      let specs = fetchSpecs infos;
                          results = fetchAll specs Map.empty
                      in case assignFields L results infos (elem1, []) of
                           None \<Rightarrow> None
                         | Some (elem2, assignErrs) \<Rightarrow> Some (Some elem2, collectErrs @ assignErrs))
           | _ \<Rightarrow> Some (Some elem, [ErrDstNotStruct]))
      | Some (TPointer t, VPointer None) \<Rightarrow> Some (None, [ErrDstNotPointer])
      | _ \<Rightarrow> Some (None, [ErrDstNotPointer]))"

text \<open>The provider calls that \<open>Resolve\<close> makes, as a list in the order of the plan.\<close>

definition Resolve_calls :: "resolverConfig \<Rightarrow> gtype \<Rightarrow> gval \<Rightarrow> (string \<times> call) list" where
  "Resolve_calls cfg t elem =
     (case t of
        TStruct n st \<Rightarrow>
          (case collectFields cfg [] st (elem, [], []) of
             (elem1, infos, collectErrs) \<Rightarrow>
               if collectErrs \<noteq> [] \<and> infos = [] then []
               else concat (map callOf (fetchSpecs infos)))
      | _ \<Rightarrow> [])"

subsection \<open>Letter-case variants, as the specification words them\<close>

text \<open>
  \<open>ToLower\<close> maps the ASCII capital letters to the small ones: a string is a
  letter-case variant of \<open>true\<close> when \<open>ToLower\<close> maps it to \<open>true\<close>.
\<close>

definition ToLower :: "string \<Rightarrow> string" where
  "ToLower s = map (\<lambda>c. if (65::nat) \<le> of_char c \<and> of_char c \<le> (90::nat)
                         then char_of (of_char c + (32::nat)) else c) s"

section \<open>The watcher (watcher.go)\<close>

record fieldSnapshot =
  fieldName :: string
  key :: string
  providerName :: string
  raw :: string

text \<open>
  \<open>valueToBytes\<close>: a pointer is dereferenced once; a value of a kind without a case
  of its own is rendered by \<open>Value.String()\<close>, which prints the type.
\<close>

definition kindToBytes :: "go_lib \<Rightarrow> gtype \<Rightarrow> gval \<Rightarrow> string" where
  "kindToBytes L ft v =
     (case (ft, v) of
        (TBasic n KString, VString s) \<Rightarrow> s
      | (TBasic n KBytes, VBytes b) \<Rightarrow> b
      | (TBasic n KBool, VBool b) \<Rightarrow> (if b then ''true'' else ''false'')
      | (TBasic n (KInt bits), VInt i) \<Rightarrow>
          if ft = Duration_type then Duration_String L i else FormatInt i
      | (TBasic n (KUint bits), VUint u) \<Rightarrow> FormatUint u
      | (TBasic n (KFloat bits), VFloat x) \<Rightarrow> FormatFloat L x
      | _ \<Rightarrow> ''<'' @ type_String ft @ '' Value>'')"

definition valueToBytes :: "go_lib \<Rightarrow> gtype \<Rightarrow> gval \<Rightarrow> string" where
  "valueToBytes L ft v =
     (case ft of
        TPointer t \<Rightarrow>
          (case v of
             VPointer (Some x) \<Rightarrow> kindToBytes L t x
           | _ \<Rightarrow> [])
      | _ \<Rightarrow> kindToBytes L ft v)"

text \<open>\<open>fieldToBytes\<close>, reading the field in the record \<open>v\<close>.\<close>

definition fieldToBytes :: "go_lib \<Rightarrow> gval \<Rightarrow> fieldInfo \<Rightarrow> string" where
  "fieldToBytes L v f =
     (if isVersioned f
      then (case get_at v (fieldValue f @ [PField 0]) of
              Some x \<Rightarrow> valueToBytes L (Field_type (fieldType f) 0) x
            | None \<Rightarrow> [])
      else (case get_at v (fieldValue f) of
              Some x \<Rightarrow> valueToBytes L (fieldType f) x
            | None \<Rightarrow> []))"

definition snapshotOf :: "go_lib \<Rightarrow> gval \<Rightarrow> fieldInfo \<Rightarrow> fieldSnapshot" where
  "snapshotOf L v f =
     \<lparr>fieldName = fieldInfo.fieldName f,
      key = Key (tag f),
      providerName =
        (if fieldInfo.providerName f = [] then Scheme (tag f) else fieldInfo.providerName f),
      raw = fieldToBytes L v f\<rparr>"

text \<open>
  \<open>takeSnapshot\<close> on a pointer to a record of struct type \<open>TStruct n st\<close>: it walks
  the record again, so the record comes back with it. The nil slice is the empty list.
\<close>

definition takeSnapshot ::
  "go_lib \<Rightarrow> resolverConfig \<Rightarrow> (StructField \<times> gtype) list \<Rightarrow> gval
     \<Rightarrow> fieldSnapshot list \<times> gval" where
  "takeSnapshot L cfg st elem =
     (case collectFields cfg [] st (elem, [], []) of
        (elem1, infos, errs) \<Rightarrow> (map (snapshotOf L elem1) infos, elem1))"

text \<open>The loop that compares the snapshots position by position.\<close>

fun changeEvents :: "fieldSnapshot list \<Rightarrow> fieldSnapshot list \<Rightarrow> ChangeEvent list" where
  "changeEvents (old # olds) (new # news) =
     (if raw old \<noteq> raw new
      then [\<lparr>Field = fieldName new, Key = key new, Provider = providerName new,
             OldValue = raw old, NewValue = raw new\<rparr>]
      else []) @ changeEvents olds news"
| "changeEvents _ _ = []"

text \<open>
  The channel \<open>changes\<close> is made with a buffer of 64 events. The buffer is a list, the
  oldest event first; a receiver takes events from the front. A send blocks when the
  buffer is full: \<open>send\<close> has then no result. The \<open>select\<close> with a \<open>default\<close> case
  takes the default when the send would block.
\<close>

definition changes_cap :: nat where
  "changes_cap = 64"

definition send :: "ChangeEvent list \<Rightarrow> ChangeEvent \<Rightarrow> ChangeEvent list option" where
  "send ch event = (if length ch < changes_cap then Some (ch @ [event]) else None)"

definition trySend :: "ChangeEvent list \<Rightarrow> ChangeEvent \<Rightarrow> ChangeEvent list" where
  "trySend ch event = (case send ch event of Some ch' \<Rightarrow> ch' | None \<Rightarrow> ch)"

fun emitEvents :: "ChangeEvent list \<Rightarrow> ChangeEvent list \<Rightarrow> ChangeEvent list" where
  "emitEvents ch [] = ch"
| "emitEvents ch (event # events) = emitEvents (trySend ch event) events"

text \<open>
  The copy of the secret-tagged fields from the shadow record into the live one:
  \<open>dstFields[i].fieldValue.Set(tmpFields[i].fieldValue)\<close> for every \<open>i\<close> below both
  lengths.
\<close>

fun copyFields :: "fieldInfo list \<Rightarrow> fieldInfo list \<Rightarrow> gval \<Rightarrow> gval \<Rightarrow> gval" where
  "copyFields (d # ds) (t # ts) tmp dst =
     copyFields ds ts tmp
       (case get_at tmp (fieldValue t) of
          Some x \<Rightarrow> update_at (fieldValue d) (\<lambda>_. x) dst
        | None \<Rightarrow> dst)"
| "copyFields _ _ tmp dst = dst"

text \<open>
  \<open>poll\<close> for a live record \<open>dst\<close> of struct type \<open>TStruct n st\<close>, with the channel
  buffer \<open>ch\<close>: the returned snapshot (the nil slice is the empty list), the live record
  and the channel buffer after the cycle. \<open>None\<close> is a panic.
\<close>

definition poll ::
  "go_lib \<Rightarrow> resolverConfig \<Rightarrow> string \<Rightarrow> (StructField \<times> gtype) list \<Rightarrow> gval
     \<Rightarrow> fieldSnapshot list \<Rightarrow> ChangeEvent list
     \<Rightarrow> (fieldSnapshot list \<times> gval \<times> ChangeEvent list) option" where
  "poll L cfg n st dst oldSnapshot ch =
     (case Resolve L cfg (Some (TPointer (TStruct n st), VPointer (Some (zero (TStruct n st))))) of
        None \<Rightarrow> None
      | Some (None, errs) \<Rightarrow> Some ([], dst, ch)
      | Some (Some tmp, errs) \<Rightarrow>
          if errs \<noteq> [] then Some ([], dst, ch)
          else
            (case takeSnapshot L cfg st tmp of
               (newSnapshot, tmp1) \<Rightarrow>
                 let events = changeEvents oldSnapshot newSnapshot
                 in if events \<noteq> []
                    then (case collectFields cfg [] st (tmp1, [], []) of
                            (tmp2, tmpFields, errs1) \<Rightarrow>
                              (case collectFields cfg [] st (dst, [], errs1) of
                                 (dst1, dstFields, errs2) \<Rightarrow>
                                   Some (newSnapshot,
                                         copyFields dstFields tmpFields tmp2 dst1,
                                         emitEvents ch events)))
                    else Some (newSnapshot, dst, ch)))"

text \<open>One tick of \<open>pollLoop\<close>: the state is the live record, the snapshot and the channel.\<close>

definition pollTick ::
  "go_lib \<Rightarrow> resolverConfig \<Rightarrow> string \<Rightarrow> (StructField \<times> gtype) list
     \<Rightarrow> gval \<times> fieldSnapshot list \<times> ChangeEvent list
     \<Rightarrow> (gval \<times> fieldSnapshot list \<times> ChangeEvent list) option" where
  "pollTick L cfg n st s =
     (case s of
        (dst, snapshot, ch) \<Rightarrow>
          (case poll L cfg n st dst snapshot ch of
             None \<Rightarrow> None
           | Some (newSnapshot, dst1, ch1) \<Rightarrow>
               Some (dst1, if newSnapshot \<noteq> [] then newSnapshot else snapshot, ch1)))"

subsection \<open>Dropping the oldest event, as the specification words it\<close>

text \<open>
  A send that makes room by dropping the oldest pending event when the buffer is full.
\<close>

definition send_dropping_oldest :: "ChangeEvent list \<Rightarrow> ChangeEvent \<Rightarrow> ChangeEvent list" where
  "send_dropping_oldest ch event =
     (if length ch < changes_cap then ch @ [event] else tl ch @ [event])"

section \<open>Concrete inputs\<close>

text \<open>The providers, records and channels at which the theorems below are evaluated.\<close>

definition ex_backend :: provider where
  "ex_backend =
     \<lparr>Get = (\<lambda>k. Inr ''fresh''), GetVersion = Some (\<lambda>k ver. Inr ''versioned'')\<rparr>"

definition ex_backend_plain :: provider where
  "ex_backend_plain = \<lparr>Get = (\<lambda>k. Inr ''fresh''), GetVersion = None\<rparr>"

definition ex_cache_at_expiry :: CachedProvider where
  "ex_cache_at_expiry =
     \<lparr>CachedProvider.provider = ex_backend, ttl = 5,
      entries = [''k'' \<mapsto> \<lparr>data = ''stale'', expires = 10\<rparr>]\<rparr>"

definition ex_cache_plain :: CachedProvider where
  "ex_cache_plain = \<lparr>CachedProvider.provider = ex_backend_plain, ttl = 5, entries = Map.empty\<rparr>"

definition ex_cache_versioned :: CachedProvider where
  "ex_cache_versioned =
     \<lparr>CachedProvider.provider = ex_backend, ttl = 5,
      entries = [[CHR ''a'', CHR 0x00, CHR ''b''] \<mapsto> \<lparr>data = ''versioned'', expires = 5\<rparr>]\<rparr>"

definition ex_event_old :: ChangeEvent where
  "ex_event_old =
     \<lparr>Field = ''Val'', Key = ''k'', Provider = ''default'', OldValue = ''v0'', NewValue = ''v1''\<rparr>"

definition ex_event_new :: ChangeEvent where
  "ex_event_new =
     \<lparr>Field = ''Val'', Key = ''k'', Provider = ''default'', OldValue = ''v1'', NewValue = ''v2''\<rparr>"

definition ex_full_channel :: "ChangeEvent list" where
  "ex_full_channel = replicate 64 ex_event_old"

text \<open>A library in which no named type has an \<open>UnmarshalText\<close> method.\<close>

definition ex_lib :: go_lib where
  "ex_lib =
     \<lparr>json_Unmarshal = (\<lambda>s. Inl ErrSyntax), json_Marshal = (\<lambda>j. Inr []),
      FormatFloat = (\<lambda>x. []), int64_overflow = (\<lambda>x. - (2 ^ 63)),
      ParseFloat = (\<lambda>s bits. Inl ErrSyntax), ParseDuration = (\<lambda>s. Inl ErrSyntax),
      Duration_String = (\<lambda>d. []), UnmarshalText = (\<lambda>n. None)\<rparr>"

definition bool_type :: gtype where
  "bool_type = TBasic ''bool'' KBool"

definition string_type :: gtype where
  "string_type = TBasic ''string'' KString"

section \<open>Properties of the tag parser\<close>

lemma Split_nonempty: "Split c s \<noteq> []"
  by (induction s) (auto simp: Let_def)

lemma LastIndex_split:
  assumes "c \<in> set s"
  shows "0 \<le> LastIndex c s" 
    and "s = take (nat (LastIndex c s)) s @ [c] @ drop (nat (LastIndex c s + 1)) s"
    and "c \<notin> set (drop (nat (LastIndex c s + 1)) s)"
proof -
  let ?P = "\<lambda>x. x \<noteq> c"
  let ?tw = "takeWhile ?P (rev s)" and ?dw = "dropWhile ?P (rev s)"
  have c_rev: "c \<in> set (rev s)" using assms by simp
  have dw_ne: "?dw \<noteq> []" using c_rev by (simp add: dropWhile_eq_Nil_conv) 
  have hd_dw: "hd ?dw = c" using hd_dropWhile[OF dw_ne] by simp
  have revs: "rev s = ?tw @ c # tl ?dw"
    using dw_ne hd_dw takeWhile_dropWhile_id[of ?P "rev s"] by (metis list.collapse)
  then have s_eq: "s = rev (tl ?dw) @ [c] @ rev ?tw"
    by (metis append_Cons append_Nil rev.simps(2) rev_append rev_rev_ident append_assoc)
  have len: "length s = length ?tw + 1 + length (tl ?dw)"
    using arg_cong[OF revs, of length] by simp
  have idx: "LastIndex c s = int (length (tl ?dw))"
    using assms len by (simp add: LastIndex_def)
  show "0 \<le> LastIndex c s" using idx by simp
  have tk: "take (length (tl ?dw)) s = rev (tl ?dw)"
    by (subst s_eq) simp
  have dr: "drop (Suc (length (tl ?dw))) s = rev ?tw"
    by (subst s_eq) simp
  show "s = take (nat (LastIndex c s)) s @ [c] @ drop (nat (LastIndex c s + 1)) s"
    using s_eq tk dr idx by (simp add: nat_add_distrib)
  have "c \<notin> set ?tw" by (metis (mono_tags, lifting) set_takeWhileD)
  then show "c \<notin> set (drop (nat (LastIndex c s + 1)) s)"
    using dr idx by (simp add: nat_add_distrib)
qed

lemma LastIndex_absent: "c \<notin> set s \<Longrightarrow> LastIndex c s = - 1"
  by (simp add: LastIndex_def)

lemma Index_None: "Index sep s = None \<Longrightarrow> \<not> sublist sep s"
proof (induction s)
  case Nil
  then show ?case by (auto split: if_splits)
next
  case (Cons x xs)
  then show ?case by (auto simp: sublist_Cons_right split: if_splits)
qed

lemma Index_Some:
  "Index sep s = Some i \<Longrightarrow> sep \<noteq> [] \<Longrightarrow>
     s = take i s @ sep @ drop (i + length sep) s \<and> \<not> sublist sep (take i s @ butlast sep)"
proof (induction s arbitrary: i)
  case Nil
  then show ?case by (auto split: if_splits)
next
  case (Cons x xs)
  show ?case
  proof (cases "prefix sep (x # xs)")
    case True
    then have i0: "i = 0" using Cons.prems by simp
    from True obtain r where "x # xs = sep @ r" by (auto simp: prefix_def)
    moreover have "\<not> sublist sep (butlast sep)"
      using Cons.prems(2) by (metis length_butlast sublist_length_le diff_less length_greater_0_conv less_one not_le)
    ultimately show ?thesis using i0 by simp
  next
    case False
    then obtain j where j: "Index sep xs = Some j" "i = Suc j"
      using Cons.prems by (auto)
    from Cons.IH[OF j(1) Cons.prems(2)]
    have IH1: "xs = take j xs @ sep @ drop (j + length sep) xs"
      and IH2: "\<not> sublist sep (take j xs @ butlast sep)" by auto
    have a: "x # xs = take i (x # xs) @ sep @ drop (i + length sep) (x # xs)"
      using IH1 j(2) by simp
    have "\<not> prefix sep (x # take j xs @ butlast sep)"
    proof
      assume p: "prefix sep (x # take j xs @ butlast sep)"
      have "prefix (x # take j xs @ butlast sep) (x # xs)"
        by (subst (2) IH1) (metis Cons.prems(2) append_butlast_last_id append.assoc prefix_def same_prefix_prefix Cons_prefix_Cons)
      with p have "prefix sep (x # xs)" by (rule prefix_order.trans)
      with False show False by simp
    qed
    then have b: "\<not> sublist sep (take i (x # xs) @ butlast sep)"
      using IH2 j(2) by (simp add: sublist_Cons_right)
    from a b show ?thesis by simp
  qed
qed


lemma last_split_unique:
  assumes "b1 @ c # f1 = b2 @ c # f2" "c \<notin> set f1" "c \<notin> set f2"
  shows "b1 = b2 \<and> f1 = f2"
proof -
  have "\<And>b f. c \<notin> set f \<Longrightarrow> takeWhile (\<lambda>x. x \<noteq> c) (rev (b @ c # f)) = rev f"
    by (auto simp: takeWhile_tail)
  from this[OF assms(2), of b1] this[OF assms(3), of b2] assms(1)
  have "rev f1 = rev f2" by simp
  then have "f1 = f2" by simp
  with assms(1) show ?thesis by simp
qed

lemma is_fragment_split_unique:
  "is_fragment_split u b1 f1 \<Longrightarrow> is_fragment_split u b2 f2 \<Longrightarrow> b1 = b2 \<and> f1 = f2"
  unfolding is_fragment_split_def
  using last_split_unique[of b1 "CHR ''#''" f1 b2 f2] by auto

lemma no_early_occurrence:
  assumes "\<not> sublist sep (s1 @ r @ butlast sep)" "r \<noteq> []" "sep \<noteq> []"
  shows "\<not> prefix sep (r @ sep @ k)"
proof
  assume p: "prefix sep (r @ sep @ k)"
  have eq: "r @ sep @ k = (r @ butlast sep) @ ([last sep] @ k)"
    using assms(3) by simp
  have len: "length sep \<le> length (r @ butlast sep)"
    using assms(2,3) by (cases r) auto
  from p have "prefix sep ((r @ butlast sep) @ ([last sep] @ k))"
    by (simp only: eq)
  moreover have "prefix (r @ butlast sep) ((r @ butlast sep) @ ([last sep] @ k))"
    by (rule prefixI[OF refl])
  ultimately have "prefix sep (r @ butlast sep)"
    using len by (rule prefix_length_prefix)
  then have "sublist sep (s1 @ r @ butlast sep)"
    by (auto simp: prefix_def sublist_def)
  with assms(1) show False by simp
qed

lemma first_split_unique_aux:
  assumes eq: "s1 @ sep @ k1 = s2 @ sep @ k2"
    and n2: "\<not> sublist sep (s2 @ butlast sep)"
    and ne: "sep \<noteq> []" and le: "length s1 \<le> length s2"
  shows "s1 = s2"
proof (rule ccontr)
  assume neq: "s1 \<noteq> s2"
  have "take (length s1) (s1 @ sep @ k1) = take (length s1) (s2 @ sep @ k2)"
    using eq by simp
  then have "s1 = take (length s1) s2" using le by simp
  then have s2: "s2 = s1 @ drop (length s1) s2"
    by (metis append_take_drop_id)
  then have "s1 @ sep @ k1 = s1 @ (drop (length s1) s2 @ sep @ k2)"
    using eq by (metis append.assoc)
  then have "sep @ k1 = drop (length s1) s2 @ sep @ k2" by simp
  with s2 obtain r where r: "s2 = s1 @ r" "sep @ k1 = r @ sep @ k2"
    by blast
  with neq have "r \<noteq> []" by auto
  from no_early_occurrence[OF _ this ne, of s1 k2] n2 r(1)
  have "\<not> prefix sep (r @ sep @ k2)" by simp
  with r(2) show False by (metis prefixI)
qed

lemma first_split_unique:
  assumes "s1 @ sep @ k1 = s2 @ sep @ k2"
    and "\<not> sublist sep (s1 @ butlast sep)" and "\<not> sublist sep (s2 @ butlast sep)"
    and "sep \<noteq> []"
  shows "s1 = s2 \<and> k1 = k2"
proof -
  have "s1 = s2"
  proof (cases "length s1 \<le> length s2")
    case True
    then show ?thesis using first_split_unique_aux[OF assms(1,3,4)] by simp
  next
    case False
    then have "length s2 \<le> length s1" by simp
    then show ?thesis using first_split_unique_aux[OF assms(1)[symmetric] assms(2,4)] by simp
  qed
  with assms(1) show ?thesis by simp
qed

lemma is_scheme_split_unique:
  assumes "is_scheme_split body s1 k1" "is_scheme_split body s2 k2"
  shows "s1 = s2 \<and> k1 = k2"
proof -
  have bl: "butlast ''://'' = '':/''" by simp
  have ne: "''://'' \<noteq> []" by simp
  show ?thesis
    using assms first_split_unique[of s1 "''://''" k1 s2 k2, OF _ _ _ ne]
    unfolding is_scheme_split_def bl
    by (auto simp: sublist_def) 
qed

lemma parseOptions_fields:
  "parseOptions t opts = Inr t' \<Longrightarrow>
     Scheme t' = Scheme t \<and> Key t' = Key t \<and> Fragment t' = Fragment t"
  by (induction t opts rule: parseOptions.induct) (auto split: if_splits)

lemma parseOptions_error:
  "(\<exists>e. parseOptions t opts = Inl e) \<longleftrightarrow>
     (\<exists>opt\<in>set opts. opt \<noteq> ''optional'' \<and> \<not> prefix ''version='' opt)"
  by (induction t opts rule: parseOptions.induct) (auto simp: HasPrefix_def)


lemma Split_part: "c \<notin> set p \<Longrightarrow> Split c (p @ c # s) = p # Split c s"
  by (induction p) (auto simp: Let_def)

lemma Split_single: "c \<notin> set p \<Longrightarrow> Split c p = [p]"
  by (induction p) (auto simp: Let_def)

lemma Split_Join:
  "ps \<noteq> [] \<Longrightarrow> \<forall>p\<in>set ps. c \<notin> set p \<Longrightarrow> Split c (Join c ps) = ps"
  by (induction c ps rule: Join.induct) (auto simp: Split_part Split_single)

lemma Join_Split: "Join c (Split c s) = s \<and> (\<forall>p\<in>set (Split c s). c \<notin> set p)"
proof (induction s)
  case Nil
  then show ?case by simp
next
  case (Cons x xs)
  obtain p ps where ps: "Split c xs = p # ps"
    using Split_nonempty[of c xs] by (cases "Split c xs") auto
  with Cons show ?case by (cases ps) (auto simp: Let_def)
qed

lemma code_fragment_split:
  "is_fragment_split u
     (if 0 \<le> LastIndex CHR ''#'' u then take (nat (LastIndex CHR ''#'' u)) u else u)
     (if 0 \<le> LastIndex CHR ''#'' u then drop (nat (LastIndex CHR ''#'' u + 1)) u else [])"
proof (cases "CHR ''#'' \<in> set u")
  case True
  from LastIndex_split[OF True] show ?thesis
    unfolding is_fragment_split_def by auto
next
  case False
  then show ?thesis
    unfolding is_fragment_split_def by (simp add: LastIndex_absent)
qed

lemma code_scheme_split:
  "Cut body ''://'' = (scheme, rest, ok) \<Longrightarrow>
     is_scheme_split body (if ok then scheme else []) (if ok then rest else body)"
proof (cases "Index ''://'' body")
  case None
  assume "Cut body ''://'' = (scheme, rest, ok)"
  with None Index_None[OF None] show ?thesis
    by (auto simp: Cut_def is_scheme_split_def)
next
  case (Some i)
  assume c: "Cut body ''://'' = (scheme, rest, ok)"
  have "''://'' \<noteq> []" by simp
  from Index_Some[OF Some this]
  have "body = take i body @ ''://'' @ drop (i + 3) body"
    and "\<not> sublist ''://'' (take i body @ '':/'')" by (simp_all add: eval_nat_numeral)
  moreover from c Some have "scheme = take i body" "rest = drop (i + 3) body" "ok"
    by (auto simp: Cut_def eval_nat_numeral)
  ultimately show ?thesis
    unfolding is_scheme_split_def by auto
qed

text \<open>
  Claim C5. Let the tag be the comma-separated list \<open>u, opts\<close>, let \<open>frag\<close> be
  what follows the last \<open>#\<close> of \<open>u\<close> and \<open>body\<close> what precedes it, and let
  \<open>scheme\<close> be what precedes the first \<open>://\<close> of \<open>body\<close> and \<open>k\<close> the
  remainder (no \<open>://\<close>: empty scheme, and the key is the body). Then \<open>parseTag\<close>
  fails exactly when the tag is empty, the key \<open>k\<close> is empty, or some option is neither
  \<open>optional\<close> nor starts with \<open>version=\<close>; and when it succeeds the parsed fragment,
  scheme and key are \<open>frag\<close>, \<open>scheme\<close> and \<open>k\<close>.
\<close>

theorem parseTag_spec:
  assumes rawTag: "rawTag = Join CHR '','' (u # opts)"
    and parts: "\<forall>p\<in>set (u # opts). CHR '','' \<notin> set p"
    and frag: "is_fragment_split u body frag"
    and sch: "is_scheme_split body scheme k"
  shows "case parseTag rawTag of
           Inl e \<Rightarrow> rawTag = [] \<or> k = [] \<or>
                    (\<exists>opt\<in>set opts. opt \<noteq> ''optional'' \<and> \<not> prefix ''version='' opt)
         | Inr t \<Rightarrow> rawTag \<noteq> [] \<and> k \<noteq> [] \<and>
                    (\<forall>opt\<in>set opts. opt = ''optional'' \<or> prefix ''version='' opt) \<and>
                    Fragment t = frag \<and> Scheme t = scheme \<and> Key t = k"
proof (cases "rawTag = []")
  case True
  then show ?thesis by (simp add: parseTag_def)
next
  case False
  have sp: "Split CHR '','' rawTag = u # opts"
    using Split_Join[of "u # opts" "CHR '',''"] rawTag parts by simp
  show ?thesis
  proof (cases "parseOptions zeroTag opts")
    case (Inl e)
    then have "\<exists>opt\<in>set opts. opt \<noteq> ''optional'' \<and> \<not> prefix ''version='' opt"
      using parseOptions_error[of zeroTag opts] by blast
    with Inl False sp show ?thesis by (simp add: parseTag_def)
  next
    case (Inr t)
    then have ok_opts: "\<forall>opt\<in>set opts. opt = ''optional'' \<or> prefix ''version='' opt"
      using parseOptions_error[of zeroTag opts] by auto
    have t0: "Scheme t = [] \<and> Key t = [] \<and> Fragment t = []"
      using parseOptions_fields[OF Inr] by (simp add: zeroTag_def)
    let ?idx = "LastIndex CHR ''#'' u"
    let ?uri1 = "if 0 \<le> ?idx then take (nat ?idx) u else u"
    let ?fr = "if 0 \<le> ?idx then drop (nat (?idx + 1)) u else []"
    obtain s r ok where cut: "Cut ?uri1 ''://'' = (s, r, ok)"
      by (cases "Cut ?uri1 ''://''") auto
    from is_fragment_split_unique[OF frag code_fragment_split]
    have b: "body = ?uri1" and f: "frag = ?fr" by simp_all
    from is_scheme_split_unique[OF sch[unfolded b] code_scheme_split[OF cut]]
    have sk: "scheme = (if ok then s else [])" "k = (if ok then r else ?uri1)" by simp_all
    show ?thesis
      using False sp Inr ok_opts t0 cut f sk
      by (auto simp: parseTag_def Let_def)
  qed
qed

text \<open>Every tag has such a decomposition, so the theorem speaks of every tag.\<close>

lemma tag_decomposition_exists:
  "\<exists>u opts body frag scheme k.
     rawTag = Join CHR '','' (u # opts) \<and> (\<forall>p\<in>set (u # opts). CHR '','' \<notin> set p) \<and>
     is_fragment_split u body frag \<and> is_scheme_split body scheme k"
proof -
  obtain u opts where sp: "Split CHR '','' rawTag = u # opts"
    using Split_nonempty[of "CHR '',''" rawTag] by (cases "Split CHR '','' rawTag") auto
  have "rawTag = Join CHR '','' (u # opts) \<and> (\<forall>p\<in>set (u # opts). CHR '','' \<notin> set p)"
    using Join_Split[of "CHR '',''" rawTag] sp by simp
  moreover obtain body frag where "is_fragment_split u body frag"
    using code_fragment_split by blast
  moreover obtain s r ok where "Cut body ''://'' = (s, r, ok)"
    by (cases "Cut body ''://''") auto
  then have "\<exists>scheme k. is_scheme_split body scheme k"
    using code_scheme_split by blast
  ultimately show ?thesis by blast
qed

text \<open>
  The theorem at three tags: a full one, and the two empty-key forms \<open>,optional\<close> and
  \<open>awssm://\<close>.
\<close>

theorem parseTag_spec_witness:
  "(case parseTag ''awssm://prod/db#password,optional,version=2'' of
      Inl e \<Rightarrow> False
    | Inr t \<Rightarrow> Fragment t = ''password'' \<and> Scheme t = ''awssm'' \<and> Key t = ''prod/db'') \<and>
   (case parseTag '',optional'' of Inl e \<Rightarrow> True | Inr t \<Rightarrow> False) \<and>
   (case parseTag ''awssm://'' of Inl e \<Rightarrow> True | Inr t \<Rightarrow> False)"
proof -
  have n1: "\<not> sublist ''://'' ''awssm:/''" by code_simp
  have n2: "\<not> sublist ''://'' []" by simp
  show ?thesis
    using parseTag_spec[of "''awssm://prod/db#password,optional,version=2''" "''awssm://prod/db#password''"
        "[''optional'', ''version=2'']" "''awssm://prod/db''" "''password''" "''awssm''" "''prod/db''"]
      parseTag_spec[of "'',optional''" "[]" "[''optional'']" "[]" "[]" "[]" "[]"]
      parseTag_spec[of "''awssm://''" "''awssm://''" "[]" "''awssm://''" "[]" "''awssm''" "[]"]
      n1 n2
    by (simp add: is_fragment_split_def is_scheme_split_def split: sum.splits)
qed

section \<open>Properties of the cached provider\<close>

text \<open>
  Claim C6, as the code has it. \<open>Get\<close> returns the cached bytes, calls nothing and
  leaves the cache as it is whenever there is an entry for the key and the clock is not
  after its expiry (at the expiry itself the entry is still served). Otherwise it calls
  the underlying provider once: an error is returned and the cache is unchanged, bytes
  are returned and stored with the expiry \<open>now' + ttl\<close>. \<open>GetVersion\<close> on a provider
  without versions fails with \<open>ErrVersioningNotSupported\<close>, calls nothing and leaves
  the cache unchanged; on a provider with versions it does as \<open>Get\<close> does, under the
  cache key \<open>k\<close>, NUL, \<open>ver\<close>, which differs from every key that has no NUL byte.
\<close>

theorem CachedProvider_spec:
  "(\<forall>e. entries c k = Some e \<and> now \<le> expires e \<longrightarrow>
        CachedProvider_Get c now now' k = (Inr (data e), c, [])) \<and>
   (entries c k = None \<or> (\<exists>e. entries c k = Some e \<and> expires e < now) \<longrightarrow>
      CachedProvider_Get c now now' k =
        (case Get (CachedProvider.provider c) k of
           Inl err \<Rightarrow> (Inl err, c, [CallGet k])
         | Inr d \<Rightarrow>
             (Inr d, c\<lparr>entries := (entries c)(k \<mapsto> \<lparr>data = d, expires = now' + ttl c\<rparr>)\<rparr>,
              [CallGet k]))) \<and>
   (GetVersion (CachedProvider.provider c) = None \<longrightarrow>
      CachedProvider_GetVersion c now now' k ver =
        (Inl (ErrVersioningNotSupported [] ''cached''), c, [])) \<and>
   (\<forall>vp e. GetVersion (CachedProvider.provider c) = Some vp \<and>
        entries c (k @ [CHR 0x00] @ ver) = Some e \<and> now \<le> expires e \<longrightarrow>
        CachedProvider_GetVersion c now now' k ver = (Inr (data e), c, [])) \<and>
   (\<forall>vp. GetVersion (CachedProvider.provider c) = Some vp \<and>
        (entries c (k @ [CHR 0x00] @ ver) = None \<or>
         (\<exists>e. entries c (k @ [CHR 0x00] @ ver) = Some e \<and> expires e < now)) \<longrightarrow>
        CachedProvider_GetVersion c now now' k ver =
          (case vp k ver of
             Inl err \<Rightarrow> (Inl err, c, [CallGetVersion k ver])
           | Inr d \<Rightarrow>
               (Inr d,
                c\<lparr>entries := (entries c)(k @ [CHR 0x00] @ ver
                                 \<mapsto> \<lparr>data = d, expires = now' + ttl c\<rparr>)\<rparr>,
                [CallGetVersion k ver]))) \<and>
   (\<forall>k'. CHR 0x00 \<notin> set k' \<longrightarrow> k @ [CHR 0x00] @ ver \<noteq> k')"
  by (auto simp: CachedProvider_Get_def CachedProvider_GetVersion_def cache_get_def cache_set_def
      split: option.splits sum.splits)

text \<open>
  The theorem at an entry that expires at 10: served at 9, refetched at 11 and stored
  at 12; at a provider without versions; and at a versioned entry served at its expiry
  and refetched after it.
\<close>

theorem CachedProvider_spec_witness:
  "CachedProvider_Get ex_cache_at_expiry 9 9 ''k'' = (Inr ''stale'', ex_cache_at_expiry, []) \<and>
   CachedProvider_Get ex_cache_at_expiry 11 12 ''k'' =
     (Inr ''fresh'',
      ex_cache_at_expiry\<lparr>entries :=
        (entries ex_cache_at_expiry)(''k'' \<mapsto> \<lparr>data = ''fresh'', expires = 17\<rparr>)\<rparr>,
      [CallGet ''k'']) \<and>
   CachedProvider_GetVersion ex_cache_plain 0 0 ''k'' ''v''
     = (Inl (ErrVersioningNotSupported [] ''cached''), ex_cache_plain, []) \<and>
   CachedProvider_GetVersion ex_cache_versioned 5 5 ''a'' ''b''
     = (Inr ''versioned'', ex_cache_versioned, []) \<and>
   CachedProvider_GetVersion ex_cache_versioned 6 7 ''a'' ''b'' =
     (Inr ''versioned'',
      ex_cache_versioned\<lparr>entries :=
        (entries ex_cache_versioned)(''a'' @ [CHR 0x00] @ ''b''
           \<mapsto> \<lparr>data = ''versioned'', expires = 12\<rparr>)\<rparr>,
      [CallGetVersion ''a'' ''b'']) \<and>
   ''a'' @ [CHR 0x00] @ ''b'' \<noteq> ''ab''"
  using CachedProvider_spec[of ex_cache_at_expiry "''k''" 9 9]
    CachedProvider_spec[of ex_cache_at_expiry "''k''" 11 12]
    CachedProvider_spec[of ex_cache_plain "''k''" 0 0 "''v''"]
    CachedProvider_spec[of ex_cache_versioned "''a''" 5 5 "''b''"]
    CachedProvider_spec[of ex_cache_versioned "''a''" 6 7 "''b''"]
  by (simp add: ex_cache_at_expiry_def ex_cache_versioned_def ex_cache_plain_def
      ex_backend_def ex_backend_plain_def)

text \<open>
  The claim as it is written fails in two places. At the expiry itself the clock is not
  before the expiry, yet the stale entry is served and the provider is not called. And
  a key with a NUL byte meets the cache key of a version: after \<open>GetVersion\<close> of
  version \<open>b\<close> of key \<open>a\<close>, \<open>Get\<close> of the key \<open>a\<close>, NUL, \<open>b\<close> is served the
  versioned bytes.
\<close>

theorem CachedProvider_counterexample:
  "\<not> (10 < expires \<lparr>data = ''stale'', expires = 10\<rparr>) \<and>
   entries ex_cache_at_expiry ''k'' = Some \<lparr>data = ''stale'', expires = 10\<rparr> \<and>
   CachedProvider_Get ex_cache_at_expiry 10 10 ''k'' = (Inr ''stale'', ex_cache_at_expiry, []) \<and>
   Get (CachedProvider.provider ex_cache_at_expiry) ''k'' = Inr ''fresh'' \<and>
   CachedProvider_GetVersion (NewCachedProvider ex_backend 5) 0 0 ''a'' ''b''
     = (Inr ''versioned'', ex_cache_versioned, [CallGetVersion ''a'' ''b'']) \<and>
   CachedProvider_Get ex_cache_versioned 1 1 [CHR ''a'', CHR 0x00, CHR ''b'']
     = (Inr ''versioned'', ex_cache_versioned, [])"
  by (simp add: CachedProvider_Get_def CachedProvider_GetVersion_def cache_get_def cache_set_def
      ex_cache_at_expiry_def ex_cache_versioned_def ex_backend_def NewCachedProvider_def)

section \<open>Properties of the conversion\<close>

lemma ParseBool_cases:
  "ParseBool s =
     (if s \<in> {''1'', ''t'', ''T'', ''true'', ''TRUE'', ''True''} then Inr True
      else if s \<in> {''0'', ''f'', ''F'', ''false'', ''FALSE'', ''False''} then Inr False
      else Inl (ErrNum ''ParseBool'' s ErrSyntax))"
  by (simp add: ParseBool_def)
lemma setField_bool:
  assumes "UnmarshalText L n = None"
  shows "setField L (TBasic n KBool) name bytes fv =
     (case ParseBool (TrimSpace bytes) of
        Inl err \<Rightarrow> (fv, Some (ErrConversion name n bytes err))
      | Inr b \<Rightarrow> (VBool b, None))"
  using assms by (simp add: setBasic_def conversion_error_def split: sum.splits)

text \<open>
  Claim C9, as the code has it. For a field of a boolean type that has no
  \<open>UnmarshalText\<close> of its own, the conversion trims the surrounding white space and
  then accepts exactly the twelve spellings of \<open>strconv.ParseBool\<close>: \<open>1\<close>,
  \<open>t\<close>, \<open>T\<close>, \<open>true\<close>, \<open>TRUE\<close>, \<open>True\<close> for true and \<open>0\<close>, \<open>f\<close>,
  \<open>F\<close>, \<open>false\<close>, \<open>FALSE\<close>, \<open>False\<close> for false. Any other string leaves the
  field as it is and yields \<open>ErrConversion\<close> around the syntax error of
  \<open>ParseBool\<close>.
\<close>

theorem setField_bool_spec:
  assumes "UnmarshalText L n = None"
  shows "setField L (TBasic n KBool) name bytes fv =
     (if TrimSpace bytes \<in> {''1'', ''t'', ''T'', ''true'', ''TRUE'', ''True''}
      then (VBool True, None)
      else if TrimSpace bytes \<in> {''0'', ''f'', ''F'', ''false'', ''FALSE'', ''False''}
      then (VBool False, None)
      else (fv, Some (ErrConversion name n bytes
                        (ErrNum ''ParseBool'' (TrimSpace bytes) ErrSyntax))))"
proof -
  define s where "s = TrimSpace bytes"
  define T :: "string set" where "T = {''1'', ''t'', ''T'', ''true'', ''TRUE'', ''True''}"
  define F :: "string set" where "F = {''0'', ''f'', ''F'', ''false'', ''FALSE'', ''False''}"
  have p: "ParseBool s = (if s \<in> T then Inr True else if s \<in> F then Inr False
      else Inl (ErrNum ''ParseBool'' s ErrSyntax))"
    unfolding T_def F_def by (rule ParseBool_cases)
  have "setField L (TBasic n KBool) name bytes fv =
     (if s \<in> T then (VBool True, None)
      else if s \<in> F then (VBool False, None)
      else (fv, Some (ErrConversion name n bytes (ErrNum ''ParseBool'' s ErrSyntax))))"
    unfolding setField_bool[OF assms] s_def[symmetric] p by simp
  then show ?thesis unfolding s_def T_def F_def .
qed
lemma TrimSpace_ex1: "TrimSpace '' TRUE  '' = ''TRUE''"
  by (simp add: TrimSpace_def DecodeLastRune_def IsSpace_def Let_def)
lemma TrimSpace_ex2: "TrimSpace ''tRuE'' = ''tRuE''"
  by (simp add: TrimSpace_def DecodeLastRune_def IsSpace_def Let_def)
lemma TrimSpace_ex3: "TrimSpace ''1'' = ''1''"
  by (simp add: TrimSpace_def DecodeLastRune_def IsSpace_def Let_def)
lemma TrimSpace_ex4: "TrimSpace ''yes'' = ''yes''"
  by (simp add: TrimSpace_def DecodeLastRune_def IsSpace_def Let_def)

text \<open>The theorem at \<open>TRUE\<close> between blanks, and at \<open>yes\<close>.\<close>

theorem setField_bool_spec_witness:
  "UnmarshalText ex_lib ''bool'' = None \<and>
   setField ex_lib (TBasic ''bool'' KBool) ''Debug'' '' TRUE  '' (VBool False) = (VBool True, None) \<and>
   setField ex_lib (TBasic ''bool'' KBool) ''Debug'' ''yes'' (VBool False) =
     (VBool False, Some (ErrConversion ''Debug'' ''bool'' ''yes'' (ErrNum ''ParseBool'' ''yes'' ErrSyntax)))"
proof -
  have u: "UnmarshalText ex_lib ''bool'' = None" by (simp add: ex_lib_def)
  show ?thesis
    using setField_bool_spec[OF u, of "''Debug''" "'' TRUE  ''" "VBool False"]
      setField_bool_spec[OF u, of "''Debug''" "''yes''" "VBool False"] u
    by (simp add: TrimSpace_ex1 TrimSpace_ex4)
qed

lemma ToLower_ex: "ToLower ''tRuE'' = ''true''" "ToLower ''1'' = ''1''"
  by code_simp+

text \<open>
  The claim as it is written fails: \<open>tRuE\<close> is a letter-case variant of \<open>true\<close>
  and is refused, and \<open>1\<close> is no variant of \<open>true\<close> or \<open>false\<close> and is accepted.
\<close>

theorem setField_bool_counterexample:
  "ToLower ''tRuE'' = ''true'' \<and>
   setField ex_lib bool_type ''Debug'' ''tRuE'' (VBool False) =
     (VBool False,
      Some (ErrConversion ''Debug'' ''bool'' ''tRuE'' (ErrNum ''ParseBool'' ''tRuE'' ErrSyntax))) \<and>
   ToLower ''1'' \<noteq> ''true'' \<and> ToLower ''1'' \<noteq> ''false'' \<and>
   setField ex_lib bool_type ''Debug'' ''1'' (VBool False) = (VBool True, None)"
proof -
  have u: "UnmarshalText ex_lib ''bool'' = None" by (simp add: ex_lib_def)
  have a: "ParseBool ''tRuE'' = Inl (ErrNum ''ParseBool'' ''tRuE'' ErrSyntax)"
    by (simp add: ParseBool_def)
  have b: "ParseBool ''1'' = Inr True"
    by (simp add: ParseBool_def)
  have c: "setField ex_lib bool_type ''Debug'' ''tRuE'' (VBool False) =
     (VBool False,
      Some (ErrConversion ''Debug'' ''bool'' ''tRuE'' (ErrNum ''ParseBool'' ''tRuE'' ErrSyntax)))"
    by (simp only: bool_type_def setField_bool[OF u] TrimSpace_ex2 a sum.case)
  have d: "setField ex_lib bool_type ''Debug'' ''1'' (VBool False) = (VBool True, None)"
    by (simp only: bool_type_def setField_bool[OF u] TrimSpace_ex3 b sum.case)
  have e1: "ToLower ''1'' \<noteq> ''true''" and e2: "ToLower ''1'' \<noteq> ''false''"
    by (simp_all only: ToLower_ex) simp_all
  show ?thesis
    by (rule conjI[OF ToLower_ex(1) conjI[OF c conjI[OF e1 conjI[OF e2 d]]]])
qed

section \<open>Properties of the event channel\<close>

lemma emitEvents_eq: "emitEvents ch events = ch @ take (changes_cap - length ch) events"
proof (induction events arbitrary: ch)
  case Nil
  then show ?case by simp
next
  case (Cons e es)
  show ?case
  proof (cases "length ch < changes_cap")
    case True
    then have "changes_cap - length ch = Suc (changes_cap - length (ch @ [e]))" by simp
    with True Cons show ?thesis by (simp add: trySend_def send_def)
  next
    case False
    with Cons show ?thesis by (simp add: trySend_def send_def)
  qed
qed

text \<open>
  Claim C7, as the code has it. Publishing never waits: the loop gives the channel after
  it whatever the channel holds. Every pending event stays where it is, the new events
  are appended in order while there is room, and the events that find the channel full
  are the ones dropped: a send that would block leaves the channel as it is.
\<close>

theorem emitEvents_spec:
  "emitEvents ch events = ch @ take (changes_cap - length ch) events \<and>
   (send ch event = None \<longrightarrow> changes_cap \<le> length ch \<and> trySend ch event = ch) \<and>
   (changes_cap \<le> length ch \<longrightarrow> emitEvents ch events = ch)"
  by (simp add: emitEvents_eq) (simp add: trySend_def send_def split: if_splits)

text \<open>The theorem at a full channel and one new event.\<close>

theorem emitEvents_spec_witness:
  "send ex_full_channel ex_event_new = None \<and>
   changes_cap \<le> length ex_full_channel \<and>
   trySend ex_full_channel ex_event_new = ex_full_channel \<and>
   emitEvents ex_full_channel [ex_event_new] = ex_full_channel"
proof -
  have a: "send ex_full_channel ex_event_new = None"
    by (simp add: send_def ex_full_channel_def changes_cap_def)
  have b: "changes_cap \<le> length ex_full_channel"
    by (simp add: ex_full_channel_def changes_cap_def)
  show ?thesis
    using emitEvents_spec[of ex_full_channel "[ex_event_new]" ex_event_new] a b by simp
qed

text \<open>
  The claim as it is written fails: on a full channel the oldest pending event is still
  the first one after the new event was published, the new event is not in the channel,
  and the channel is not the one that dropping the oldest event would give.
\<close>

theorem emitEvents_counterexample:
  "length ex_full_channel = changes_cap \<and>
   hd (emitEvents ex_full_channel [ex_event_new]) = ex_event_old \<and>
   ex_event_new \<notin> set (emitEvents ex_full_channel [ex_event_new]) \<and>
   emitEvents ex_full_channel [ex_event_new] \<noteq> send_dropping_oldest ex_full_channel ex_event_new"
proof -
  have len: "length ex_full_channel = changes_cap"
    by (simp add: ex_full_channel_def changes_cap_def)
  have e: "emitEvents ex_full_channel [ex_event_new] = ex_full_channel"
    by (simp add: emitEvents_eq len)
  have ne: "ex_event_new \<noteq> ex_event_old"
    by (simp add: ex_event_new_def ex_event_old_def)
  have h: "hd ex_full_channel = ex_event_old"
    by (simp add: ex_full_channel_def eval_nat_numeral)
  have s: "set ex_full_channel = {ex_event_old}"
    by (simp add: ex_full_channel_def)
  have "last (send_dropping_oldest ex_full_channel ex_event_new) = ex_event_new"
    by (simp add: send_dropping_oldest_def)
  moreover have "last ex_full_channel = ex_event_old"
    by (simp add: ex_full_channel_def)
  ultimately have "ex_full_channel \<noteq> send_dropping_oldest ex_full_channel ex_event_new"
    using ne by metis
  with len e h s ne show ?thesis by simp
qed

end
